theory Spec2Isabelle
  imports Main "HOL-Library.Sublist" "HOL-Library.AList"
begin

section \<open>Bucket mounting: a model of \<^verbatim>\<open>buckets/mount.py\<close> and \<^verbatim>\<open>buckets/platform.py\<close>\<close>

text \<open>
  The repository supervises an external mount daemon and the symlinks that expose one
  mount under several directories. The functions of \<^verbatim>\<open>mount.py\<close> are translated one
  by one; the operating system they talk to (the filesystem namespace, the mount table,
  the external commands, the clock) is an explicit value of type \<open>world\<close> that every
  effectful function takes and returns. Python exceptions are values of type \<open>error\<close>;
  a function that can raise returns \<open>'a res\<close>, paired with the world it leaves when it
  has effects, so that what was done before the exception stays visible. The library
  calls are those of CPython 3.10 to 3.13 (the annotations of the source need 3.10), where
  \<^verbatim>\<open>Path.exists()\<close>, \<^verbatim>\<open>Path.is_dir()\<close> and \<^verbatim>\<open>Path.is_symlink()\<close> pass on every \<^verbatim>\<open>OSError\<close> but four.
  Progress messages printed under \<^verbatim>\<open>verbose\<close> change nothing else and are left out; the
  user name is taken to be known to \<^verbatim>\<open>getpass\<close>.
\<close>

subsection \<open>Strings: \<^verbatim>\<open>str.replace\<close>, \<^verbatim>\<open>str.strip\<close>, \<^verbatim>\<open>str.split\<close>, decimal numerals\<close>

text \<open>
  \<^verbatim>\<open>s.replace(old, new)\<close> scans from the left and replaces each occurrence of \<^verbatim>\<open>old\<close> that
  does not overlap an earlier one; the text it has produced is never scanned again. With
  an empty \<^verbatim>\<open>old\<close> Python puts \<^verbatim>\<open>new\<close> in front, between every two characters and at the end.
\<close>

function str_replace :: "string \<Rightarrow> string \<Rightarrow> string \<Rightarrow> string" where
  "str_replace old new s =
     (if old = [] then new @ concat (map (\<lambda>c. c # new) s)
      else if s = [] then []
      else if prefix old s then new @ str_replace old new (drop (length old) s)
      else hd s # str_replace old new (tl s))"
  by pat_completeness auto
termination
  by (relation "measure (\<lambda>(old, new, s). length s)") auto

declare str_replace.simps [simp del]

text \<open>\<^verbatim>\<open>s.strip(chars)\<close> removes, at both ends, the characters that occur in \<^verbatim>\<open>chars\<close>.\<close>

definition str_strip :: "string \<Rightarrow> string \<Rightarrow> string" where
  "str_strip chars s =
     rev (dropWhile (\<lambda>c. c \<in> set chars) (rev (dropWhile (\<lambda>c. c \<in> set chars) s)))"

fun split_on :: "char \<Rightarrow> string \<Rightarrow> string list" where
  "split_on sep [] = [[]]"
| "split_on sep (c # cs) =
     (if c = sep then [] # split_on sep cs
      else (case split_on sep cs of [] \<Rightarrow> [[c]] | x # xs \<Rightarrow> (c # x) # xs))"

fun nat_str :: "nat \<Rightarrow> string" where
  "nat_str n =
     (if n < 10 then [char_of (48 + n)]
      else nat_str (n div 10) @ [char_of (48 + n mod 10)])"

declare nat_str.simps [simp del]

definition int_str :: "int \<Rightarrow> string" where
  "int_str i = (if i < 0 then ''-'' @ nat_str (nat (- i)) else nat_str (nat i))"

subsection \<open>\<^verbatim>\<open>_normalize_bucket_name\<close>\<close>

text \<open>
  \<^verbatim>\<open>return bucket_name.replace("s3://", "").strip("/")\<close>
\<close>

definition normalize_bucket_name :: "string \<Rightarrow> string" where
  "normalize_bucket_name bucket_name = str_strip ''/'' (str_replace ''s3://'' '''' bucket_name)"

subsection \<open>Paths\<close>

text \<open>
  A \<^verbatim>\<open>pathlib.Path\<close> is the list of its components (\<^verbatim>\<open>Path.parts\<close> without the root); all
  paths are absolute, a relative directory given by the caller stands for the absolute
  path it names. \<^verbatim>\<open>p / s\<close> parses \<^verbatim>\<open>s\<close>: empty components and \<^verbatim>\<open>.\<close> are dropped, and a
  string that starts with a slash replaces \<^verbatim>\<open>p\<close>.
\<close>

type_synonym path = "string list"

definition parts :: "string \<Rightarrow> string list" where
  "parts s = filter (\<lambda>c. c \<noteq> [] \<and> c \<noteq> ''.'') (split_on CHR ''/'' s)"

definition joinpath :: "path \<Rightarrow> string \<Rightarrow> path" where
  "joinpath p s = (if prefix ''/'' s then parts s else p @ parts s)"

definition parent :: "path \<Rightarrow> path" where
  "parent p = butlast p"

definition path_str :: "path \<Rightarrow> string" where
  "path_str p = (if p = [] then ''/'' else concat (map (\<lambda>c. CHR ''/'' # c) p))"

subsection \<open>The operating system\<close>

datatype node = File | Dir | Symlink path

text \<open>
  The external commands the code runs through \<^verbatim>\<open>subprocess.run\<close>, one constructor per
  command line:
  \<^item> \<open>Mountpoint p\<close>: \<^verbatim>\<open>mountpoint -q p\<close>;
  \<^item> \<open>MountList\<close>: \<^verbatim>\<open>mount\<close>;
  \<^item> \<open>Fusermount3 p\<close>, \<open>Fusermount p\<close>: \<^verbatim>\<open>fusermount3 -uz p\<close>, \<^verbatim>\<open>fusermount -uz p\<close>;
  \<^item> \<open>Umount p\<close>: \<^verbatim>\<open>umount p\<close>;
  \<^item> \<open>RcloneLsd t\<close>: \<^verbatim>\<open>rclone lsd t\<close>;
  \<^item> \<open>RcloneMount src p lf\<close>: \<^verbatim>\<open>rclone mount src p --daemon ... --log-file lf\<close> (the tuning
    flags are constants of the source and carry no information).
\<close>

datatype cmd =
    Mountpoint path
  | MountList
  | Fusermount3 path
  | Fusermount path
  | Umount path
  | RcloneLsd string
  | RcloneMount string path path

fun program :: "cmd \<Rightarrow> string" where
  "program (Mountpoint p) = ''mountpoint''"
| "program MountList = ''mount''"
| "program (Fusermount3 p) = ''fusermount3''"
| "program (Fusermount p) = ''fusermount''"
| "program (Umount p) = ''umount''"
| "program (RcloneLsd t) = ''rclone''"
| "program (RcloneMount src p lf) = ''rclone''"

record completed =
  returncode :: int
  stdout :: string
  stderr :: string

text \<open>
  What the code cannot influence: the platform, the user, the working directory (\<open>None\<close>
  when it has been removed, so that \<^verbatim>\<open>Path.cwd()\<close> raises), the programs on the search path
  (\<open>which\<close>), and how the external tools answer: \<open>mount_listing\<close> is what \<^verbatim>\<open>mount\<close> prints
  for a given mount table; \<open>exit_code\<close>, \<open>stderr_text\<close> and \<open>times_out\<close> are the outcomes
  of the unmount commands and of \<^verbatim>\<open>rclone\<close>; \<open>daemon_delay\<close> is the number of seconds the
  daemon needs to register its mount after a successful \<^verbatim>\<open>rclone mount\<close> (\<open>None\<close>: it never
  does).
\<close>

record host =
  sys_platform :: string
  getpass_user :: string
  env_USER :: "string option"
  cwd :: "path option"
  home :: path
  which :: "string \<Rightarrow> bool"
  mount_listing :: "path list \<Rightarrow> string"
  exit_code :: "cmd \<Rightarrow> int"
  stderr_text :: "cmd \<Rightarrow> string"
  times_out :: "cmd \<Rightarrow> bool"
  daemon_delay :: "nat option"

text \<open>
  What changes. \<open>nodes\<close> is the directory tree: one entry for every file, directory and
  symlink, under its real path (no component of the key is a symlink; the root always
  exists). \<open>faults\<close> gives the \<^verbatim>\<open>errno\<close> with which every look-up of an entry fails (\<open>107\<close>,
  \<^verbatim>\<open>ENOTCONN\<close>, for the root of a mount whose daemon has died; \<open>13\<close> below a directory
  that may not be searched); \<open>write_faults\<close> gives the \<^verbatim>\<open>errno\<close> with which creating or
  removing an entry of a directory fails (a read-only directory). \<open>mtab\<close> is the mount
  table, one entry per mount, so that a second mount on the same directory is a second
  entry; \<open>pending\<close> are the mounts a daemon has yet to register, with the time they are
  due; \<open>log\<close> is every command that was run.
\<close>

record world =
  host :: host
  nodes :: "(path \<times> node) list"
  faults :: "path \<Rightarrow> nat option"
  write_faults :: "path \<Rightarrow> nat option"
  mtab :: "path list"
  pending :: "(nat \<times> path) list"
  clock :: nat
  log :: "cmd list"

datatype error = MountError string | UnmountError string | OSError nat | TimeoutExpired

datatype 'a res = Return 'a | Raise error

definition then_do :: "'a res \<times> world \<Rightarrow> ('a \<Rightarrow> world \<Rightarrow> 'b res \<times> world) \<Rightarrow> 'b res \<times> world" where
  "then_do m f = (case m of (Return x, w) \<Rightarrow> f x w | (Raise e, w) \<Rightarrow> (Raise e, w))"

abbreviation ENOENT :: nat where "ENOENT \<equiv> 2"
abbreviation EBADF :: nat where "EBADF \<equiv> 9"
abbreviation EEXIST :: nat where "EEXIST \<equiv> 17"
abbreviation ENOTDIR :: nat where "ENOTDIR \<equiv> 20"
abbreviation EISDIR :: nat where "EISDIR \<equiv> 21"
abbreviation ENAMETOOLONG :: nat where "ENAMETOOLONG \<equiv> 36"
abbreviation ELOOP :: nat where "ELOOP \<equiv> 40"

subsubsection \<open>Path resolution\<close>

definition node_at :: "(path \<times> node) list \<Rightarrow> path \<Rightarrow> node option" where
  "node_at ns p = (if p = [] then Some Dir else map_of ns p)"

text \<open>
  The kernel resolves a path component by component. \<open>cur\<close> is the real path of the
  directory reached so far and the list that follows is what is left of the path.
  \<^verbatim>\<open>..\<close> goes up; a name of more than 255 characters is \<^verbatim>\<open>ENAMETOOLONG\<close>; a symlink is
  replaced by its target (targets are absolute), at most 40 times, \<^verbatim>\<open>ELOOP\<close> beyond; the
  last component is followed only when \<open>follow\<close> is set (\<^verbatim>\<open>stat\<close>) and not otherwise
  (\<^verbatim>\<open>lstat\<close>). \<open>Inr q\<close> is success with the real path \<open>q\<close> of the entry, \<open>Inl e\<close> is
  \<^verbatim>\<open>OSError\<close> with \<^verbatim>\<open>errno\<close> \<open>e\<close>.
\<close>

fun walk :: "(path \<times> node) list \<Rightarrow> (path \<Rightarrow> nat option) \<Rightarrow> bool \<Rightarrow> nat \<Rightarrow> path \<Rightarrow> path \<Rightarrow> nat + path" where
  "walk ns fl follow k cur [] = Inr cur"
| "walk ns fl follow k cur (c # rest) =
     (if c = ''..'' then walk ns fl follow k (butlast cur) rest
      else if 255 < length c then Inl ENAMETOOLONG
      else
        (case fl (cur @ [c]) of
           Some e \<Rightarrow> Inl e
         | None \<Rightarrow>
            (case map_of ns (cur @ [c]) of
               None \<Rightarrow> Inl ENOENT
             | Some File \<Rightarrow> if rest = [] then Inr (cur @ [c]) else Inl ENOTDIR
             | Some Dir \<Rightarrow> walk ns fl follow k (cur @ [c]) rest
             | Some (Symlink t) \<Rightarrow>
                 if rest = [] \<and> \<not> follow then Inr (cur @ [c])
                 else (case k of
                         0 \<Rightarrow> Inl ELOOP
                       | Suc j \<Rightarrow> walk ns fl follow j [] (t @ rest)))))"

definition stat :: "world \<Rightarrow> path \<Rightarrow> nat + path" where
  "stat w p = walk (nodes w) (faults w) True 40 [] p"

definition lstat :: "world \<Rightarrow> path \<Rightarrow> nat + path" where
  "lstat w p = walk (nodes w) (faults w) False 40 [] p"

text \<open>
  \<^verbatim>\<open>Path.exists()\<close>, \<^verbatim>\<open>Path.is_dir()\<close> and \<^verbatim>\<open>Path.is_symlink()\<close> answer \<open>False\<close> when \<^verbatim>\<open>stat\<close>
  (\<^verbatim>\<open>lstat\<close> for the last) fails with \<^verbatim>\<open>ENOENT\<close>, \<^verbatim>\<open>ENOTDIR\<close>, \<^verbatim>\<open>EBADF\<close> or \<^verbatim>\<open>ELOOP\<close>,
  and raise the \<^verbatim>\<open>OSError\<close> again for every other \<^verbatim>\<open>errno\<close> (\<^verbatim>\<open>_ignore_error\<close> of \<^verbatim>\<open>pathlib\<close>).
\<close>

definition ignore_error :: "nat \<Rightarrow> bool" where
  "ignore_error e \<longleftrightarrow> e = ENOENT \<or> e = ENOTDIR \<or> e = EBADF \<or> e = ELOOP"

definition path_exists :: "world \<Rightarrow> path \<Rightarrow> bool res" where
  "path_exists w p =
     (case stat w p of
        Inr q \<Rightarrow> Return True
      | Inl e \<Rightarrow> if ignore_error e then Return False else Raise (OSError e))"

definition is_dir :: "world \<Rightarrow> path \<Rightarrow> bool res" where
  "is_dir w p =
     (case stat w p of
        Inr q \<Rightarrow> Return (node_at (nodes w) q = Some Dir)
      | Inl e \<Rightarrow> if ignore_error e then Return False else Raise (OSError e))"

definition is_symlink :: "world \<Rightarrow> path \<Rightarrow> bool res" where
  "is_symlink w p =
     (case lstat w p of
        Inr q \<Rightarrow> Return (case node_at (nodes w) q of Some (Symlink t) \<Rightarrow> True | _ \<Rightarrow> False)
      | Inl e \<Rightarrow> if ignore_error e then Return False else Raise (OSError e))"

subsubsection \<open>Changing the tree\<close>

text \<open>
  \<^verbatim>\<open>os.mkdir\<close>, \<^verbatim>\<open>os.symlink\<close> and \<^verbatim>\<open>os.unlink\<close>; \<open>None\<close> is success, \<open>Some e\<close> the \<^verbatim>\<open>errno\<close>
  of the \<^verbatim>\<open>OSError\<close>. A new entry needs a parent that resolves to a directory, a name
  that is free, and a directory that may be written.
\<close>

definition create_entry :: "world \<Rightarrow> path \<Rightarrow> node \<Rightarrow> nat option \<times> world" where
  "create_entry w p n =
     (if p = [] then (Some EEXIST, w)
      else
        (case stat w (butlast p) of
           Inl e \<Rightarrow> (Some e, w)
         | Inr d \<Rightarrow>
            if node_at (nodes w) d \<noteq> Some Dir then (Some ENOTDIR, w)
            else if last p = ''..'' then (Some EEXIST, w)
            else if 255 < length (last p) then (Some ENAMETOOLONG, w)
            else
              (case faults w (d @ [last p]) of
                 Some e \<Rightarrow> (Some e, w)
               | None \<Rightarrow>
                  if map_of (nodes w) (d @ [last p]) \<noteq> None then (Some EEXIST, w)
                  else
                    (case write_faults w d of
                       Some e \<Rightarrow> (Some e, w)
                     | None \<Rightarrow> (None, w\<lparr>nodes := AList.update (d @ [last p]) n (nodes w)\<rparr>)))))"

definition os_mkdir :: "world \<Rightarrow> path \<Rightarrow> nat option \<times> world" where
  "os_mkdir w p = create_entry w p Dir"

definition os_symlink :: "world \<Rightarrow> path \<Rightarrow> path \<Rightarrow> nat option \<times> world" where
  "os_symlink w p target = create_entry w p (Symlink target)"

definition os_unlink :: "world \<Rightarrow> path \<Rightarrow> nat option \<times> world" where
  "os_unlink w p =
     (case lstat w p of
        Inl e \<Rightarrow> (Some e, w)
      | Inr q \<Rightarrow>
         if node_at (nodes w) q = Some Dir then (Some EISDIR, w)
         else
           (case write_faults w (butlast q) of
              Some e \<Rightarrow> (Some e, w)
            | None \<Rightarrow> (None, w\<lparr>nodes := AList.delete q (nodes w)\<rparr>)))"

text \<open>
  \<^verbatim>\<open>Path.mkdir(parents=True, exist_ok=True)\<close>, as \<^verbatim>\<open>pathlib\<close> writes it: try \<^verbatim>\<open>os.mkdir\<close>;
  on \<^verbatim>\<open>FileNotFoundError\<close> make the parent in the same way and try \<^verbatim>\<open>mkdir(exist_ok=True)\<close>
  once; any other \<^verbatim>\<open>OSError\<close> is passed on unless \<^verbatim>\<open>is_dir()\<close> holds.
\<close>

definition unless_is_dir :: "world \<Rightarrow> path \<Rightarrow> nat \<Rightarrow> unit res \<times> world" where
  "unless_is_dir w p e =
     (case is_dir w p of
        Return d \<Rightarrow> if d then (Return (), w) else (Raise (OSError e), w)
      | Raise x \<Rightarrow> (Raise x, w))"

definition mkdir_exist_ok :: "world \<Rightarrow> path \<Rightarrow> unit res \<times> world" where
  "mkdir_exist_ok w p =
     (case os_mkdir w p of
        (None, w1) \<Rightarrow> (Return (), w1)
      | (Some e, w1) \<Rightarrow> if e = ENOENT then (Raise (OSError e), w1) else unless_is_dir w1 p e)"

function mkdir_parents :: "world \<Rightarrow> path \<Rightarrow> unit res \<times> world" where
  "mkdir_parents w p =
     (case os_mkdir w p of
        (None, w1) \<Rightarrow> (Return (), w1)
      | (Some e, w1) \<Rightarrow>
          if e = ENOENT then
            (if butlast p = p then (Raise (OSError e), w1)
             else (case mkdir_parents w1 (butlast p) of
                     (Return u, w2) \<Rightarrow> mkdir_exist_ok w2 p
                   | (Raise x, w2) \<Rightarrow> (Raise x, w2)))
          else unless_is_dir w1 p e)"
  by pat_completeness auto
termination
proof (relation "measure (\<lambda>(w, p). length p)")
  show "wf (measure (\<lambda>(w, p). length p))" by simp
next
  fix w :: world and p :: path and x a b xa
  assume "butlast p \<noteq> p"
  then have "p \<noteq> []" by auto
  then show "((b, butlast p), (w, p)) \<in> measure (\<lambda>(w, p). length p)" by simp
qed

declare mkdir_parents.simps [simp del]

text \<open>\<^verbatim>\<open>Path.iterdir()\<close> of a directory with real path \<open>d\<close>: the names of its entries.\<close>

definition entry_names :: "world \<Rightarrow> path \<Rightarrow> string list" where
  "entry_names w d = map last (filter (\<lambda>q. q \<noteq> [] \<and> butlast q = d) (map fst (nodes w)))"

subsubsection \<open>Time and the mount daemon\<close>

text \<open>A pending mount enters the mount table once its time has come.\<close>

definition settle :: "world \<Rightarrow> world" where
  "settle w =
     w\<lparr>mtab := mtab w @ map snd (filter (\<lambda>(t, p). t \<le> clock w) (pending w)),
       pending := filter (\<lambda>(t, p). \<not> t \<le> clock w) (pending w)\<rparr>"

definition sleep :: "world \<Rightarrow> nat \<Rightarrow> world" where
  "sleep w n = settle (w\<lparr>clock := clock w + n\<rparr>)"

subsubsection \<open>\<^verbatim>\<open>subprocess.run\<close>\<close>

text \<open>
  \<^verbatim>\<open>mountpoint -q\<close> resolves its argument, symlinks included, and exits with 0 when the
  directory it reaches is a mount point (the root is one), with 32 when it is not, and
  with 1 when the path cannot be resolved.
\<close>

definition mountpoint_status :: "world \<Rightarrow> path \<Rightarrow> int" where
  "mountpoint_status w p =
     (case stat w p of
        Inl e \<Rightarrow> 1
      | Inr q \<Rightarrow> if q = [] \<or> q \<in> set (mtab w) then 0 else 32)"

text \<open>
  A forced unmount that exits with 0 takes one entry of the directory out of the table,
  and a dead daemon's \<^verbatim>\<open>ENOTCONN\<close> goes with it (the unmount program finds the directory
  although \<^verbatim>\<open>stat\<close> fails there).
\<close>

definition unmounted :: "world \<Rightarrow> path \<Rightarrow> world" where
  "unmounted w p =
     (case walk (nodes w) (\<lambda>q. None) True 40 [] p of
        Inl e \<Rightarrow> w
      | Inr q \<Rightarrow>
          w\<lparr>mtab := remove1 q (mtab w),
            faults := (if faults w q = Some 107 then (faults w)(q := None) else faults w)\<rparr>)"

text \<open>
  An \<^verbatim>\<open>rclone mount --daemon\<close> that exits with 0 has started a daemon, which registers the
  mount on the directory \<open>daemon_delay\<close> seconds later.
\<close>

definition daemon_started :: "world \<Rightarrow> path \<Rightarrow> world" where
  "daemon_started w p =
     (case daemon_delay (host w) of
        None \<Rightarrow> w
      | Some d \<Rightarrow>
         (case stat w p of
            Inl e \<Rightarrow> w
          | Inr q \<Rightarrow> settle (w\<lparr>pending := pending w @ [(clock w + d, q)]\<rparr>)))"

text \<open>
  \<^verbatim>\<open>subprocess.run\<close> raises \<^verbatim>\<open>FileNotFoundError\<close> when the program is not on the search path;
  otherwise the command runs, is logged, and its exit status and output come back.
\<close>

definition run :: "world \<Rightarrow> cmd \<Rightarrow> completed res \<times> world" where
  "run w c =
     (if \<not> which (host w) (program c) then (Raise (OSError ENOENT), w)
      else
        (let w1 = w\<lparr>log := log w @ [c]\<rparr>;
             rc = exit_code (host w) c;
             done = \<lparr>returncode = rc, stdout = [], stderr = stderr_text (host w) c\<rparr>
         in case c of
              Mountpoint p \<Rightarrow>
                (Return \<lparr>returncode = mountpoint_status w p, stdout = [], stderr = []\<rparr>, w1)
            | MountList \<Rightarrow>
                (Return \<lparr>returncode = 0, stdout = mount_listing (host w) (mtab w), stderr = []\<rparr>, w1)
            | Fusermount3 p \<Rightarrow> (Return done, if rc = 0 then unmounted w1 p else w1)
            | Fusermount p \<Rightarrow> (Return done, if rc = 0 then unmounted w1 p else w1)
            | Umount p \<Rightarrow> (Return done, if rc = 0 then unmounted w1 p else w1)
            | RcloneLsd t \<Rightarrow> (Return done, w1)
            | RcloneMount src p lf \<Rightarrow> (Return done, if rc = 0 then daemon_started w1 p else w1)))"

text \<open>\<^verbatim>\<open>subprocess.run(..., timeout=30)\<close> raises \<^verbatim>\<open>TimeoutExpired\<close> when the command is too slow.\<close>

definition run_timeout :: "world \<Rightarrow> cmd \<Rightarrow> completed res \<times> world" where
  "run_timeout w c =
     (if \<not> which (host w) (program c) then (Raise (OSError ENOENT), w)
      else if times_out (host w) c then (Raise TimeoutExpired, w\<lparr>log := log w @ [c]\<rparr>)
      else run w c)"

subsection \<open>\<^verbatim>\<open>platform.py\<close>\<close>

definition is_macos :: "world \<Rightarrow> bool" where
  "is_macos w = (sys_platform (host w) = ''darwin'')"

definition is_linux :: "world \<Rightarrow> bool" where
  "is_linux w = prefix ''linux'' (sys_platform (host w))"

text \<open>\<^verbatim>\<open>get_default_root\<close>: \<^verbatim>\<open>return Path.cwd()\<close>, which raises when the directory is gone.\<close>

definition get_default_root :: "world \<Rightarrow> path res" where
  "get_default_root w = (case cwd (host w) of Some d \<Rightarrow> Return d | None \<Rightarrow> Raise (OSError ENOENT))"

definition get_mount_base :: "world \<Rightarrow> path" where
  "get_mount_base w = joinpath (joinpath [''tmp''] (getpass_user (host w))) ''rclone''"

definition get_user :: "world \<Rightarrow> string" where
  "get_user w = (case env_USER (host w) of Some u \<Rightarrow> u | None \<Rightarrow> getpass_user (host w))"

definition check_rclone :: "world \<Rightarrow> (bool \<times> string) res" where
  "check_rclone w =
     (if \<not> which (host w) ''rclone'' then Return (False, ''rclone not found in PATH'')
      else
        (let config_path =
               joinpath (joinpath (joinpath (home (host w)) ''.config'') ''rclone'') ''rclone.conf''
         in case path_exists w config_path of
              Raise e \<Rightarrow> Raise e
            | Return found \<Rightarrow>
                if \<not> found
                then Return (False, ''rclone config not found at '' @ path_str config_path)
                else Return (True, ''rclone ready'')))"

definition check_fuse :: "world \<Rightarrow> (bool \<times> string) res" where
  "check_fuse w =
     (if is_linux w then
        (case path_exists w [''dev'', ''fuse''] of
           Raise e \<Rightarrow> Raise e
         | Return found \<Rightarrow>
             if found then Return (True, ''FUSE available'')
             else Return (False, ''/dev/fuse not found - install fuse3''))
      else if is_macos w then
        (case is_dir w [''Library'', ''Frameworks'', ''fuse_t.framework''] of
           Raise e \<Rightarrow> Raise e
         | Return t \<Rightarrow>
             if t then Return (True, ''FUSE-T available'')
             else
               (case is_dir w [''Library'', ''Frameworks'', ''macFUSE.framework''] of
                  Raise e \<Rightarrow> Raise e
                | Return m \<Rightarrow>
                    if m then Return (True, ''macFUSE available'')
                    else Return (False, ''FUSE-T not installed - brew install --cask fuse-t'')))
      else Return (False, ''Unsupported platform: '' @ sys_platform (host w)))"

subsection \<open>\<^verbatim>\<open>mount.py\<close>: the mount state inspector\<close>

text \<open>
  \<^verbatim>\<open>_is_stale_mount\<close>:
  \<^verbatim>\<open>try: path.stat(); return False\<close>
  \<^verbatim>\<open>except OSError as e: return e.errno == 107\<close>
\<close>

definition is_stale_mount :: "world \<Rightarrow> path \<Rightarrow> bool" where
  "is_stale_mount w p = (case stat w p of Inr q \<Rightarrow> False | Inl e \<Rightarrow> e = 107)"

text \<open>
  The loop \<^verbatim>\<open>for cmd in ["fusermount3", "fusermount"]\<close> of \<^verbatim>\<open>_cleanup_stale_mount\<close> and
  \<^verbatim>\<open>_do_unmount\<close>: run the commands in turn and stop at the first that exits with 0.
\<close>

fun first_success :: "world \<Rightarrow> cmd list \<Rightarrow> bool res \<times> world" where
  "first_success w [] = (Return False, w)"
| "first_success w (c # cs) =
     (case run w c of
        (Raise e, w1) \<Rightarrow> (Raise e, w1)
      | (Return r, w1) \<Rightarrow> if returncode r = 0 then (Return True, w1) else first_success w1 cs)"

definition cleanup_stale_mount :: "world \<Rightarrow> path \<Rightarrow> bool res \<times> world" where
  "cleanup_stale_mount w p =
     (if \<not> is_stale_mount w p then (Return True, w)
      else if is_linux w then first_success w [Fusermount3 p, Fusermount p]
      else if is_macos w then
        then_do (run w (Umount p)) (\<lambda>r w1. (Return (returncode r = 0), w1))
      else (Return False, w))"

text \<open>
  \<^verbatim>\<open>_is_mountpoint_active\<close>: the stale check, then \<^verbatim>\<open>path.exists()\<close>, then the mount table of
  the platform; \<open>False\<close> on any other platform.
\<close>

definition is_mountpoint_active :: "world \<Rightarrow> path \<Rightarrow> bool res \<times> world" where
  "is_mountpoint_active w p =
     (if is_stale_mount w p then (Return False, w)
      else
        then_do (path_exists w p, w)
          (\<lambda>found w0.
             if \<not> found then (Return False, w0)
             else if is_linux w0 then
               then_do (run w0 (Mountpoint p)) (\<lambda>r w1. (Return (returncode r = 0), w1))
             else if is_macos w0 then
               then_do (run w0 MountList)
                 (\<lambda>r w1.
                    (let path_s = path_str p
                     in (Return (sublist ('' on '' @ path_s @ '' '') (stdout r)
                                 \<or> sublist ('' on /private'' @ path_s @ '' '') (stdout r)), w1)))
             else (Return False, w0)))"

subsection \<open>\<^verbatim>\<open>mount.py\<close>: mounting\<close>

definition test_s3_access :: "world \<Rightarrow> string \<Rightarrow> string \<Rightarrow> (bool \<times> string) res \<times> world" where
  "test_s3_access w bucket_name remote_name =
     then_do (run_timeout w (RcloneLsd (remote_name @ '':'')))
       (\<lambda>r w1.
          if returncode r \<noteq> 0
          then (Return (False, ''Cannot connect to S3 remote '' @ [CHR 0x27] @ remote_name
                                 @ [CHR 0x27] @ '': '' @ stderr r), w1)
          else then_do (run_timeout w1 (RcloneLsd (remote_name @ '':'' @ bucket_name)))
            (\<lambda>r w2.
               if returncode r \<noteq> 0
               then (Return (False, ''Cannot access bucket '' @ [CHR 0x27] @ bucket_name
                                      @ [CHR 0x27] @ '': '' @ stderr r), w2)
               else (Return (True, ''OK''), w2)))"

text \<open>The log file of the daemon: \<^verbatim>\<open>Path("/tmp") / get_user() / "rclone-logs" / f"{bucket_name}.log"\<close>.\<close>

definition rclone_log_dir :: "world \<Rightarrow> path" where
  "rclone_log_dir w = joinpath (joinpath [''tmp''] (get_user w)) ''rclone-logs''"

definition rclone_log_file :: "world \<Rightarrow> string \<Rightarrow> path" where
  "rclone_log_file w bucket_name = joinpath (rclone_log_dir w) (bucket_name @ ''.log'')"

text \<open>\<^verbatim>\<open>_do_mount\<close>, called without \<^verbatim>\<open>log_file\<close>.\<close>

definition do_mount :: "world \<Rightarrow> string \<Rightarrow> path \<Rightarrow> string \<Rightarrow> unit res \<times> world" where
  "do_mount w bucket_name mount_point remote_name =
     then_do (mkdir_parents w (rclone_log_dir w))
       (\<lambda>u w1.
          then_do (run w1 (RcloneMount (remote_name @ '':'' @ bucket_name) mount_point
                             (rclone_log_file w1 bucket_name)))
            (\<lambda>r w2.
               if returncode r \<noteq> 0
               then (Raise (MountError (''rclone mount failed (exit code ''
                                         @ int_str (returncode r) @ '')'')), w2)
               else (Return (), w2)))"

text \<open>
  \<^verbatim>\<open>_poll_until_mounted\<close>:
  \<^verbatim>\<open>for _ in range(timeout):\<close>
  \<^verbatim>\<open>    if _is_mountpoint_active(mount_point): return True\<close>
  \<^verbatim>\<open>    time.sleep(1)\<close>
  \<^verbatim>\<open>return False\<close>
\<close>

fun poll_until_mounted :: "world \<Rightarrow> path \<Rightarrow> nat \<Rightarrow> bool res \<times> world" where
  "poll_until_mounted w mount_point 0 = (Return False, w)"
| "poll_until_mounted w mount_point (Suc n) =
     (case is_mountpoint_active w mount_point of
        (Raise e, w1) \<Rightarrow> (Raise e, w1)
      | (Return a, w1) \<Rightarrow>
          if a then (Return True, w1) else poll_until_mounted (sleep w1 1) mount_point n)"

text \<open>
  The blocks of \<^verbatim>\<open>mount_bucket\<close>, in the order of the source and under the names of its
  comments. \<^verbatim>\<open># Pre-flight checks\<close> and \<^verbatim>\<open># Test S3 access\<close>:
\<close>

definition preflight :: "world \<Rightarrow> string \<Rightarrow> string \<Rightarrow> unit res \<times> world" where
  "preflight w bucket_name remote_name =
     then_do (check_rclone w, w)
       (\<lambda>(rclone_ok, rclone_msg) w.
          if \<not> rclone_ok then (Raise (MountError rclone_msg), w)
          else then_do (check_fuse w, w)
            (\<lambda>(fuse_ok, fuse_msg) w.
               if \<not> fuse_ok then (Raise (MountError fuse_msg), w)
               else then_do (test_s3_access w bucket_name remote_name)
                 (\<lambda>(s3_ok, s3_msg) w1.
                    if \<not> s3_ok then (Raise (MountError s3_msg), w1)
                    else (Return (), w1))))"

text \<open>\<^verbatim>\<open># Clean up stale mount if present\<close>\<close>

definition stale_cleanup :: "world \<Rightarrow> path \<Rightarrow> unit res \<times> world" where
  "stale_cleanup w mount_point =
     (if is_stale_mount w mount_point then
        then_do (cleanup_stale_mount w mount_point)
          (\<lambda>ok w1.
             if \<not> ok
             then (Raise (MountError (''Failed to clean up stale mount at '' @ path_str mount_point)), w1)
             else (Return (), w1))
      else (Return (), w))"

text \<open>\<^verbatim>\<open># Create directories\<close>\<close>

definition create_directories :: "world \<Rightarrow> path \<Rightarrow> path \<Rightarrow> unit res \<times> world" where
  "create_directories w mount_point symlink_path =
     then_do (mkdir_parents w (parent mount_point))
       (\<lambda>u w1. then_do (mkdir_parents w1 mount_point)
          (\<lambda>u w2. mkdir_parents w2 (parent symlink_path)))"

text \<open>
  \<^verbatim>\<open># Check for conflicts\<close>:
  \<^verbatim>\<open>if symlink_path.exists() and not symlink_path.is_symlink(): raise MountError(...)\<close>
  \<^verbatim>\<open>if _is_mountpoint_active(symlink_path): raise MountError(...)\<close>
\<close>

definition check_conflicts :: "world \<Rightarrow> path \<Rightarrow> unit res \<times> world" where
  "check_conflicts w symlink_path =
     then_do (path_exists w symlink_path, w)
       (\<lambda>found w.
          then_do (if found then is_symlink w symlink_path else Return True, w)
            (\<lambda>link w.
               if found \<and> \<not> link
               then (Raise (MountError (path_str symlink_path @ '' exists and is not a symlink'')), w)
               else then_do (is_mountpoint_active w symlink_path)
                 (\<lambda>a w1.
                    if a
                    then (Raise (MountError (path_str symlink_path @ '' is already a mount point'')), w1)
                    else (Return (), w1))))"

text \<open>
  \<^verbatim>\<open># Mount if not already mounted\<close>. The files left in the mount directory are unlinked
  first, and what cannot be unlinked is skipped (\<^verbatim>\<open>except Exception: pass\<close>); the poll runs
  with the default bound of \<^verbatim>\<open>_poll_until_mounted\<close>, \<^verbatim>\<open>timeout = 10\<close>.
\<close>

definition clean_stale_files :: "world \<Rightarrow> path \<Rightarrow> unit res \<times> world" where
  "clean_stale_files w mount_point =
     (case stat w mount_point of
        Inl e \<Rightarrow> (Raise (OSError e), w)
      | Inr d \<Rightarrow>
          if node_at (nodes w) d \<noteq> Some Dir then (Raise (OSError ENOTDIR), w)
          else (Return (),
                fold (\<lambda>name w1. snd (os_unlink w1 (mount_point @ [name]))) (entry_names w d) w))"

definition mount_if_needed :: "world \<Rightarrow> string \<Rightarrow> path \<Rightarrow> string \<Rightarrow> unit res \<times> world" where
  "mount_if_needed w bucket_name mount_point remote_name =
     then_do (is_mountpoint_active w mount_point)
       (\<lambda>a w1.
          if \<not> a then
            then_do (clean_stale_files w1 mount_point)
              (\<lambda>u w2. then_do (do_mount w2 bucket_name mount_point remote_name)
                 (\<lambda>u w3. then_do (poll_until_mounted w3 mount_point 10)
                    (\<lambda>ready w4.
                       if \<not> ready
                       then (Raise (MountError (''Mount failed. Check logs: ''
                                                 @ path_str (rclone_log_file w4 bucket_name))), w4)
                       else (Return (), w4))))
          else (Return (), w1))"

text \<open>
  \<^verbatim>\<open># Create/update symlink\<close>:
  \<^verbatim>\<open>if symlink_path.is_symlink(): symlink_path.unlink()\<close>
  \<^verbatim>\<open>symlink_path.symlink_to(mount_point)\<close>
\<close>

definition raise_errno :: "nat option \<times> world \<Rightarrow> unit res \<times> world" where
  "raise_errno r = (case r of (None, w) \<Rightarrow> (Return (), w) | (Some e, w) \<Rightarrow> (Raise (OSError e), w))"

definition update_symlink :: "world \<Rightarrow> path \<Rightarrow> path \<Rightarrow> unit res \<times> world" where
  "update_symlink w symlink_path mount_point =
     then_do (is_symlink w symlink_path, w)
       (\<lambda>link w.
          then_do (if link then raise_errno (os_unlink w symlink_path) else (Return (), w))
            (\<lambda>u w1. raise_errno (os_symlink w1 symlink_path mount_point)))"

text \<open>
  The paths of a call: \<^verbatim>\<open>root_dir = Path(root_dir).expanduser() if root_dir else get_default_root()\<close>,
  \<^verbatim>\<open>mount_point = get_mount_base() / bucket_name\<close>, \<^verbatim>\<open>symlink_path = root_dir / bucket_name\<close>,
  with the normalized bucket name. A \<^verbatim>\<open>root_dir\<close> that is given is the directory it names.
\<close>

definition mount_point_of :: "world \<Rightarrow> string \<Rightarrow> path" where
  "mount_point_of w bucket_name = joinpath (get_mount_base w) (normalize_bucket_name bucket_name)"

definition root_of :: "world \<Rightarrow> path option \<Rightarrow> path res" where
  "root_of w root_dir = (case root_dir of Some d \<Rightarrow> Return d | None \<Rightarrow> get_default_root w)"

text \<open>\<^verbatim>\<open>mount_bucket\<close> from \<^verbatim>\<open># Pre-flight checks\<close> to \<^verbatim>\<open># Create directories\<close> (lines 282 to 306).\<close>

definition mount_prepare :: "world \<Rightarrow> string \<Rightarrow> path \<Rightarrow> path \<Rightarrow> string \<Rightarrow> unit res \<times> world" where
  "mount_prepare w bucket_name mount_point symlink_path remote_name =
     then_do (preflight w bucket_name remote_name)
       (\<lambda>u w1. then_do (stale_cleanup w1 mount_point)
          (\<lambda>u w2. create_directories w2 mount_point symlink_path))"

definition mount_bucket :: "world \<Rightarrow> string \<Rightarrow> path option \<Rightarrow> string \<Rightarrow> path res \<times> world" where
  "mount_bucket w bucket_name root_dir remote_name =
     then_do (root_of w root_dir, w)
       (\<lambda>root w.
          (let b = normalize_bucket_name bucket_name;
               mp = joinpath (get_mount_base w) b;
               sp = joinpath root b
           in then_do (mount_prepare w b mp sp remote_name)
                (\<lambda>u w1. then_do (check_conflicts w1 sp)
                   (\<lambda>u w2. then_do (mount_if_needed w2 b mp remote_name)
                      (\<lambda>u w3. then_do (update_symlink w3 sp mp)
                         (\<lambda>u w4. (Return sp, w4)))))))"

subsection \<open>\<^verbatim>\<open>mount.py\<close>: queries, unlinking and unmounting\<close>

definition is_mounted :: "world \<Rightarrow> string \<Rightarrow> bool res \<times> world" where
  "is_mounted w bucket_name = is_mountpoint_active w (mount_point_of w bucket_name)"

definition unlink_bucket :: "world \<Rightarrow> string \<Rightarrow> path option \<Rightarrow> bool res \<times> world" where
  "unlink_bucket w bucket_name root_dir =
     then_do (root_of w root_dir, w)
       (\<lambda>root w.
          (let symlink_path = joinpath root (normalize_bucket_name bucket_name)
           in then_do (is_symlink w symlink_path, w)
                (\<lambda>link w.
                   if \<not> link then (Return False, w)
                   else then_do (raise_errno (os_unlink w symlink_path))
                          (\<lambda>u w1. (Return True, w1)))))"

definition do_unmount :: "world \<Rightarrow> path \<Rightarrow> unit res \<times> world" where
  "do_unmount w mount_point =
     (if is_linux w then
        then_do (first_success w [Fusermount3 mount_point, Fusermount mount_point])
          (\<lambda>ok w1.
             if ok then (Return (), w1)
             else (Raise (UnmountError (''Failed to unmount '' @ path_str mount_point)), w1))
      else if is_macos w then
        then_do (run w (Umount mount_point))
          (\<lambda>r w1.
             if returncode r \<noteq> 0
             then (Raise (UnmountError (''Failed to unmount '' @ path_str mount_point
                                         @ '': '' @ stderr r)), w1)
             else (Return (), w1))
      else (Return (), w))"

definition unmount_bucket :: "world \<Rightarrow> string \<Rightarrow> bool \<Rightarrow> unit res \<times> world" where
  "unmount_bucket w bucket_name remove_symlinks =
     (let mount_point = mount_point_of w bucket_name
      in then_do (is_mountpoint_active w mount_point)
           (\<lambda>a w1.
              if \<not> a then (Return (), w1)
              else then_do (do_unmount w1 mount_point)
                (\<lambda>u w2.
                   if remove_symlinks then
                     then_do (get_default_root w2, w2)
                       (\<lambda>root w2.
                          (let default_symlink = joinpath root (normalize_bucket_name bucket_name)
                           in then_do (is_symlink w2 default_symlink, w2)
                                (\<lambda>link w2.
                                   if link then raise_errno (os_unlink w2 default_symlink)
                                   else (Return (), w2))))
                   else (Return (), w2))))"

record mount_status =
  bucket :: string
  mount_point :: path
  is_mounted_field :: bool
  default_symlink :: path
  symlink_exists :: bool

definition get_mount_status :: "world \<Rightarrow> string \<Rightarrow> mount_status res \<times> world" where
  "get_mount_status w bucket_name =
     (let b = normalize_bucket_name bucket_name;
          mp = joinpath (get_mount_base w) b
      in then_do (get_default_root w, w)
           (\<lambda>root w.
              (let ds = joinpath root b
               in then_do (is_mountpoint_active w mp)
                    (\<lambda>a w1.
                       then_do (is_symlink w1 ds, w1)
                         (\<lambda>link w1.
                            (Return \<lparr>bucket = b, mount_point = mp, is_mounted_field = a,
                                     default_symlink = ds, symlink_exists = link\<rparr>, w1))))))"

subsection \<open>Commands of interest, and what a step leaves alone\<close>

text \<open>The forced-unmount commands, and the command that starts a mount daemon.\<close>

definition is_unmount_cmd :: "cmd \<Rightarrow> bool" where
  "is_unmount_cmd c =
     (case c of Fusermount3 p \<Rightarrow> True | Fusermount p \<Rightarrow> True | Umount p \<Rightarrow> True | _ \<Rightarrow> False)"

definition is_mount_cmd :: "cmd \<Rightarrow> bool" where
  "is_mount_cmd c = (case c of RcloneMount s p l \<Rightarrow> True | _ \<Rightarrow> False)"

text \<open>Between \<open>w\<close> and \<open>w'\<close> commands were run, and none of them started a mount daemon.\<close>

definition ran_no_mount :: "world \<Rightarrow> world \<Rightarrow> bool" where
  "ran_no_mount w w' \<longleftrightarrow> (\<exists>l. log w' = log w @ l \<and> (\<forall>c \<in> set l. \<not> is_mount_cmd c))"

text \<open>Every entry of the directory tree of \<open>w\<close> is still there, unchanged, in \<open>w'\<close>.\<close>

definition keeps_entries :: "world \<Rightarrow> world \<Rightarrow> bool" where
  "keeps_entries w w' \<longleftrightarrow>
     (\<forall>q n. node_at (nodes w) q = Some n \<longrightarrow> node_at (nodes w') q = Some n)"

text \<open>The same, for the entries that are not symlinks.\<close>

definition keeps_files :: "world \<Rightarrow> world \<Rightarrow> bool" where
  "keeps_files w w' \<longleftrightarrow>
     (\<forall>q. node_at (nodes w) q = Some File \<longrightarrow> node_at (nodes w') q = Some File)
     \<and> (\<forall>q. node_at (nodes w) q = Some Dir \<longrightarrow> node_at (nodes w') q = Some Dir)"

text \<open>The world after \<open>k\<close> waits of one second.\<close>

fun sleeps :: "nat \<Rightarrow> world \<Rightarrow> world" where
  "sleeps 0 w = w"
| "sleeps (Suc k) w = sleeps k (sleep w 1)"

subsection \<open>Example hosts and worlds\<close>

text \<open>
  A Linux host with the usual programs installed, on which every command succeeds and
  the daemon registers its mount after two seconds, and a few states of its filesystem:
  nothing mounted yet; the bucket \<^verbatim>\<open>data-team\<close> mounted and linked from the working
  directory; the same with a dead daemon; the same with a mount base that may not be
  searched; the same after the mount has gone; the same with a working directory that
  may not be written; and a working directory in which a regular file has the name of
  the link. On the slow host the daemon never registers its mount.
\<close>

definition linux_host :: host where
  "linux_host =
     \<lparr>sys_platform = ''linux'', getpass_user = ''alice'', env_USER = Some ''alice'',
      cwd = Some [''home'', ''alice'', ''proj''], home = [''home'', ''alice''],
      which = (\<lambda>n. n \<in> set [''rclone'', ''mountpoint'', ''mount'', ''fusermount3'',
                                ''fusermount'', ''umount'']),
      mount_listing = (\<lambda>tab. []),
      exit_code = (\<lambda>c. 0), stderr_text = (\<lambda>c. []), times_out = (\<lambda>c. False),
      daemon_delay = Some 2\<rparr>"

definition fresh_world :: world where
  "fresh_world =
     \<lparr>host = linux_host,
      nodes = [([''dev''], Dir), ([''dev'', ''fuse''], File), ([''home''], Dir),
               ([''home'', ''alice''], Dir), ([''home'', ''alice'', ''.config''], Dir),
               ([''home'', ''alice'', ''.config'', ''rclone''], Dir),
               ([''home'', ''alice'', ''.config'', ''rclone'', ''rclone.conf''], File),
               ([''home'', ''alice'', ''proj''], Dir), ([''tmp''], Dir)],
      faults = (\<lambda>p. None), write_faults = (\<lambda>p. None),
      mtab = [], pending = [], clock = 0, log = []\<rparr>"

definition slow_world :: world where
  "slow_world = fresh_world\<lparr>host := linux_host\<lparr>daemon_delay := None\<rparr>\<rparr>"

definition example_mount_point :: path where
  "example_mount_point = [''tmp'', ''alice'', ''rclone'', ''data-team'']"

definition example_link :: path where
  "example_link = [''home'', ''alice'', ''proj'', ''data-team'']"

definition mounted_world :: world where
  "mounted_world =
     fresh_world\<lparr>nodes := nodes fresh_world @
       [([''tmp'', ''alice''], Dir), ([''tmp'', ''alice'', ''rclone''], Dir),
        (example_mount_point, Dir), ([''tmp'', ''alice'', ''rclone-logs''], Dir),
        (example_link, Symlink example_mount_point)],
       mtab := [example_mount_point]\<rparr>"

definition stale_world :: world where
  "stale_world = mounted_world\<lparr>faults := (\<lambda>p. if p = example_mount_point then Some 107 else None)\<rparr>"

definition denied_world :: world where
  "denied_world =
     mounted_world\<lparr>faults := (\<lambda>p. if butlast p = [''tmp'', ''alice'', ''rclone''] then Some 13 else None)\<rparr>"

definition dangling_world :: world where
  "dangling_world = mounted_world\<lparr>mtab := []\<rparr>"

definition readonly_world :: world where
  "readonly_world =
     mounted_world\<lparr>write_faults := (\<lambda>d. if d = [''home'', ''alice'', ''proj''] then Some 13 else None)\<rparr>"

definition occupied_world :: world where
  "occupied_world = fresh_world\<lparr>nodes := nodes fresh_world @ [(example_link, File)]\<rparr>"

definition long_name :: string where
  "long_name = replicate 256 (CHR ''a'')"

section \<open>Properties\<close>

subsection \<open>Basic facts\<close>

lemma then_do_Return [simp]: "then_do (Return x, w) f = f x w"
  by (simp add: then_do_def)

lemma then_do_Raise [simp]: "then_do (Raise e, w) f = (Raise e, w)"
  by (simp add: then_do_def)

lemma run_probe:
  "run w (Mountpoint p) =
     (if which (host w) ''mountpoint''
      then (Return \<lparr>returncode = mountpoint_status w p, stdout = [], stderr = []\<rparr>,
            w\<lparr>log := log w @ [Mountpoint p]\<rparr>)
      else (Raise (OSError ENOENT), w))"
  "run w MountList =
     (if which (host w) ''mount''
      then (Return \<lparr>returncode = 0, stdout = mount_listing (host w) (mtab w), stderr = []\<rparr>,
            w\<lparr>log := log w @ [MountList]\<rparr>)
      else (Raise (OSError ENOENT), w))"
  by (simp_all add: run_def Let_def)

lemma active_world:
  "snd (is_mountpoint_active w p) = w
   \<or> snd (is_mountpoint_active w p) = w\<lparr>log := log w @ [Mountpoint p]\<rparr>
   \<or> snd (is_mountpoint_active w p) = w\<lparr>log := log w @ [MountList]\<rparr>"
  by (cases "path_exists w p") (simp_all add: is_mountpoint_active_def run_probe Let_def)

subsection \<open>Bucket names\<close>

lemma replace_old_prefix: "old \<noteq> [] \<Longrightarrow> str_replace old new (old @ n) = new @ str_replace old new n"
  by (subst str_replace.simps) simp

lemma replace_absent_char:
  "x \<in> set old \<Longrightarrow> x \<notin> set s \<Longrightarrow> str_replace old new s = s"
proof (induction s)
  case Nil
  then show ?case by (subst str_replace.simps) auto
next
  case (Cons c s)
  have np: "\<not> prefix old (c # s)"
  proof
    assume "prefix old (c # s)"
    then have "set old \<subseteq> set (c # s)" by (rule set_mono_prefix)
    with Cons.prems show False by auto
  qed
  from Cons.prems have "old \<noteq> []" by auto
  moreover from Cons have "str_replace old new s = s" by simp
  ultimately show ?case using np by (subst str_replace.simps) simp
qed

lemma replace_append_last:
  "\<not> suffix p n \<Longrightarrow> str_replace (p @ [x]) [] (n @ [x]) = str_replace (p @ [x]) [] n @ [x]"
proof (induction n rule: length_induct)
  case (1 n)
  let ?old = "p @ [x]"
  show ?case
  proof (cases "n = []")
    case True
    with "1.prems" have "p \<noteq> []" by auto
    then have "\<not> prefix ?old [x]" by (cases p) auto
    then have "str_replace ?old [] [x] = [x]"
      by (subst str_replace.simps, subst str_replace.simps) simp
    moreover have "str_replace ?old [] [] = []" by (subst str_replace.simps) simp
    ultimately show ?thesis using True by simp
  next
    case ne: False
    show ?thesis
    proof (cases "prefix ?old n")
      case True
      then obtain r where n: "n = ?old @ r" by (auto simp: prefix_def)
      have "\<not> suffix p r" using "1.prems" n by (auto simp: suffix_def)
      moreover have "length r < length n" using n by simp
      ultimately have ih: "str_replace ?old [] (r @ [x]) = str_replace ?old [] r @ [x]"
        using "1.IH" by blast
      have "str_replace ?old [] (?old @ (r @ [x])) = [] @ str_replace ?old [] (r @ [x])"
        by (rule replace_old_prefix) simp
      moreover have "str_replace ?old [] (?old @ r) = [] @ str_replace ?old [] r"
        by (rule replace_old_prefix) simp
      ultimately show ?thesis using ih n by simp
    next
      case False
      have np: "\<not> prefix ?old (n @ [x])"
      proof
        assume "prefix ?old (n @ [x])"
        then obtain r where e: "n @ [x] = ?old @ r" by (auto simp: prefix_def)
        show False
        proof (cases r rule: rev_cases)
          case Nil
          with e have "n = p" by simp
          with "1.prems" show False by simp
        next
          case (snoc r' y)
          with e have "n = ?old @ r'" by simp
          with False show False by simp
        qed
      qed
      obtain c t where n: "n = c # t" using ne by (cases n) auto
      have "\<not> suffix p t" using "1.prems" n by (auto simp: suffix_def)
      then have ih: "str_replace ?old [] (t @ [x]) = str_replace ?old [] t @ [x]"
        using "1.IH" n by simp
      have a: "str_replace ?old [] (n @ [x]) = c # str_replace ?old [] (t @ [x])"
        using np n by (subst str_replace.simps) simp
      have b: "str_replace ?old [] n = c # str_replace ?old [] t"
        using False n by (subst str_replace.simps) simp
      show ?thesis using a b ih by simp
    qed
  qed
qed

lemma dropWhile_all: "(\<forall>c \<in> set s. P c) \<Longrightarrow> dropWhile P s = []"
  by (induction s) auto

lemma strip_append_stripped: "x \<in> set chars \<Longrightarrow> str_strip chars (s @ [x]) = str_strip chars s"
proof (cases "\<forall>c \<in> set s. c \<in> set chars")
  case True
  assume x: "x \<in> set chars"
  from True have a: "dropWhile (\<lambda>c. c \<in> set chars) s = []"
    by (rule dropWhile_all)
  from True x have b: "dropWhile (\<lambda>c. c \<in> set chars) (s @ [x]) = []"
    by (intro dropWhile_all) simp
  show ?thesis unfolding str_strip_def a b by (rule refl)
next
  case False
  assume x: "x \<in> set chars"
  from False have "dropWhile (\<lambda>c. c \<in> set chars) (s @ [x]) = dropWhile (\<lambda>c. c \<in> set chars) s @ [x]"
    by (auto simp: dropWhile_append1)
  with x show ?thesis by (simp add: str_strip_def)
qed

lemma strip_no_leading: "str_strip chars s \<noteq> [] \<Longrightarrow> hd (str_strip chars s) \<notin> set chars"
proof -
  assume ne: "str_strip chars s \<noteq> []"
  let ?d = "dropWhile (\<lambda>c. c \<in> set chars) s"
  let ?e = "dropWhile (\<lambda>c. c \<in> set chars) (rev ?d)"
  have e: "?e \<noteq> []" using ne by (simp add: str_strip_def)
  have d: "?d \<noteq> []"
  proof
    assume "?d = []"
    then have "rev ?d = []" by (simp only: rev.simps)
    then have "?e = []" by (simp only: dropWhile.simps)
    with e show False by (simp only:)
  qed
  from d have h: "hd ?d \<notin> set chars" by (rule hd_dropWhile)
  have "suffix ?e (rev ?d)" by (rule suffix_dropWhile)
  then obtain z where z: "rev ?d = z @ ?e" by (auto simp: suffix_def)
  then have "?d = rev ?e @ rev z" by (metis rev_append rev_rev_ident)
  then have "hd ?d = hd (rev ?e)" using e by (metis hd_append2 rev_is_Nil_conv)
  with h show ?thesis by (simp add: str_strip_def)
qed

lemma strip_no_trailing: "str_strip chars s \<noteq> [] \<Longrightarrow> last (str_strip chars s) \<notin> set chars"
proof -
  assume ne: "str_strip chars s \<noteq> []"
  let ?d = "dropWhile (\<lambda>c. c \<in> set chars) s"
  let ?e = "dropWhile (\<lambda>c. c \<in> set chars) (rev ?d)"
  have "?e \<noteq> []" using ne by (simp add: str_strip_def)
  then have "hd ?e \<notin> set chars" by (rule hd_dropWhile)
  then show ?thesis using \<open>?e \<noteq> []\<close> by (simp add: str_strip_def last_rev)
qed

lemma strip_subset: "set (str_strip chars s) \<subseteq> set s"
proof -
  have "set (str_strip chars s) \<subseteq> set (dropWhile (\<lambda>c. c \<in> set chars) s)"
    unfolding str_strip_def by (metis set_dropWhileD set_rev subsetI)
  also have "\<dots> \<subseteq> set s" by (meson set_dropWhileD subsetI)
  finally show ?thesis .
qed

lemma normalize_scheme: "normalize_bucket_name (''s3://'' @ n) = normalize_bucket_name n"
proof -
  have "str_replace ''s3://'' [] (''s3://'' @ n) = [] @ str_replace ''s3://'' [] n"
    by (rule replace_old_prefix) simp
  then show ?thesis by (simp only: normalize_bucket_name_def append_Nil)
qed

lemma normalize_slash:
  assumes "\<not> suffix ''s3:/'' n"
  shows "normalize_bucket_name (n @ ''/'') = normalize_bucket_name n"
proof -
  have "str_replace (''s3:/'' @ ''/'') [] (n @ ''/'') = str_replace (''s3:/'' @ ''/'') [] n @ ''/''"
    using assms by (rule replace_append_last)
  then have "str_replace ''s3://'' [] (n @ ''/'') = str_replace ''s3://'' [] n @ ''/''" by simp
  moreover have "str_strip ''/'' (str_replace ''s3://'' [] n @ ''/'') = str_strip ''/'' (str_replace ''s3://'' [] n)"
    by (rule strip_append_stripped) simp
  ultimately show ?thesis by (simp only: normalize_bucket_name_def)
qed

lemma normalize_no_slash_ends:
  "\<not> prefix ''/'' (normalize_bucket_name n) \<and> \<not> suffix ''/'' (normalize_bucket_name n)"
proof (cases "normalize_bucket_name n = []")
  case True
  then show ?thesis by simp
next
  case False
  then have ne: "str_strip ''/'' (str_replace ''s3://'' [] n) \<noteq> []"
    by (simp add: normalize_bucket_name_def)
  have h: "hd (normalize_bucket_name n) \<noteq> CHR ''/''"
    using strip_no_leading [OF ne] by (simp add: normalize_bucket_name_def)
  have l: "last (normalize_bucket_name n) \<noteq> CHR ''/''"
    using strip_no_trailing [OF ne] by (simp add: normalize_bucket_name_def)
  from h False have "\<not> prefix ''/'' (normalize_bucket_name n)"
    by (cases "normalize_bucket_name n") auto
  moreover from l False have "\<not> suffix ''/'' (normalize_bucket_name n)"
    by (auto simp: suffix_def)
  ultimately show ?thesis by simp
qed

lemma normalize_no_colon:
  assumes "CHR '':'' \<notin> set n"
  shows "\<not> prefix ''s3://'' (normalize_bucket_name n)"
proof
  assume p: "prefix ''s3://'' (normalize_bucket_name n)"
  have "str_replace ''s3://'' [] n = n" using assms by (intro replace_absent_char [of "CHR '':''"]) simp_all
  then have "normalize_bucket_name n = str_strip ''/'' n" by (simp add: normalize_bucket_name_def)
  then have "set (normalize_bucket_name n) \<subseteq> set n" by (simp add: strip_subset)
  moreover from p have "set ''s3://'' \<subseteq> set (normalize_bucket_name n)" by (rule set_mono_prefix)
  ultimately show False using assms by auto
qed

text \<open>
  Claim C4, as amended. For every name that does not end in \<^verbatim>\<open>s3:/\<close>, writing \<^verbatim>\<open>s3://\<close> in
  front of it, a slash behind it, or both, does not change the normalized id; the id
  neither starts nor ends with a slash; and for a name without a colon the id does not
  start with \<^verbatim>\<open>s3://\<close>. (The equation for the prefix alone needs no condition.)
\<close>

theorem normalize_canonical:
  assumes "\<not> suffix ''s3:/'' n"
  shows "normalize_bucket_name (''s3://'' @ n) = normalize_bucket_name n
         \<and> normalize_bucket_name (n @ ''/'') = normalize_bucket_name n
         \<and> normalize_bucket_name (''s3://'' @ n @ ''/'') = normalize_bucket_name n
         \<and> \<not> prefix ''/'' (normalize_bucket_name n)
         \<and> \<not> suffix ''/'' (normalize_bucket_name n)
         \<and> (CHR '':'' \<notin> set n \<longrightarrow> \<not> prefix ''s3://'' (normalize_bucket_name n))"
proof -
  have a: "normalize_bucket_name (''s3://'' @ n) = normalize_bucket_name n"
    by (rule normalize_scheme)
  have b: "normalize_bucket_name (n @ ''/'') = normalize_bucket_name n"
    using assms by (rule normalize_slash)
  have "normalize_bucket_name (''s3://'' @ (n @ ''/'')) = normalize_bucket_name (n @ ''/'')"
    by (rule normalize_scheme)
  with b have c: "normalize_bucket_name (''s3://'' @ n @ ''/'') = normalize_bucket_name n"
    by (simp only:)
  note d = normalize_no_slash_ends [of n]
  have e: "CHR '':'' \<notin> set n \<longrightarrow> \<not> prefix ''s3://'' (normalize_bucket_name n)"
    by (rule impI) (rule normalize_no_colon)
  from a b c d e show ?thesis by (intro conjI) (simp_all only: simp_thms)
qed

theorem normalize_canonical_witness:
  "\<not> suffix ''s3:/'' ''data-team''
   \<and> CHR '':'' \<notin> set ''data-team''
   \<and> normalize_bucket_name ''s3://data-team/'' = ''data-team''
   \<and> normalize_bucket_name ''data-team'' = ''data-team''
   \<and> \<not> prefix ''s3://'' (normalize_bucket_name ''data-team'')"
proof -
  have h: "\<not> suffix ''s3:/'' ''data-team''" by code_simp
  have c: "CHR '':'' \<notin> set ''data-team''" by simp
  have v: "normalize_bucket_name ''data-team'' = ''data-team''" by code_simp
  from normalize_canonical [OF h] c v h show ?thesis by simp
qed

text \<open>
  The claim as first stated fails: the name \<^verbatim>\<open>s3:/\<close> followed by a slash is the scheme
  prefix itself and normalizes to the empty id, while \<^verbatim>\<open>s3:/\<close> alone keeps \<^verbatim>\<open>s3:\<close>; and
  since the replacement is one pass, removing an inner \<^verbatim>\<open>s3://\<close> can join a new one,
  which stays in the id.
\<close>

theorem normalize_not_canonical:
  "normalize_bucket_name (''s3:/'' @ ''/'') \<noteq> normalize_bucket_name ''s3:/''
   \<and> prefix ''s3://'' (normalize_bucket_name (''s3://'' @ ''s3s3://://x'' @ ''/''))"
  by code_simp


subsection \<open>The inspector\<close>

text \<open>
  On Linux, with \<^verbatim>\<open>mountpoint\<close> installed, the inspector is decided by \<^verbatim>\<open>stat\<close> and the mount
  table: a failure of \<^verbatim>\<open>stat\<close> gives \<open>False\<close> for \<^verbatim>\<open>errno\<close> 107 and for the four error
  codes that \<^verbatim>\<open>Path.exists()\<close> swallows, and raises for every other; a path that resolves is
  active exactly when the directory it resolves to is in the mount table.
\<close>

lemma inspector_on_linux:
  assumes "is_linux w" and "which (host w) ''mountpoint''"
  shows "is_mountpoint_active w p =
     (case stat w p of
        Inl e \<Rightarrow> if e = 107 \<or> ignore_error e then (Return False, w)
                 else (Raise (OSError e), w)
      | Inr q \<Rightarrow> (Return (q = [] \<or> q \<in> set (mtab w)), w\<lparr>log := log w @ [Mountpoint p]\<rparr>))"
  using assms
  by (auto simp: is_mountpoint_active_def is_stale_mount_def path_exists_def run_probe
        mountpoint_status_def is_linux_def split: sum.splits)

text \<open>
  Claim C2 asks that every failure of the probe other than \<^verbatim>\<open>errno\<close> 107 be classified
  \<open>Unmounted\<close>. \<^verbatim>\<open>_is_stale_mount\<close> does answer \<open>False\<close> for such a failure, but
  \<^verbatim>\<open>_is_mountpoint_active\<close> then calls \<^verbatim>\<open>path.exists()\<close>, which raises the error again unless
  it is one of four. With a mount base that may not be searched (\<^verbatim>\<open>EACCES\<close>, 13), and with
  a bucket name of 256 characters under an existing mount base (\<^verbatim>\<open>ENAMETOOLONG\<close>, 36), the
  path is not stale and the inspector raises \<^verbatim>\<open>OSError\<close> instead of answering.
\<close>

theorem inspector_raises_on_other_errno:
  "stat denied_world example_mount_point = Inl 13
   \<and> \<not> is_stale_mount denied_world example_mount_point
   \<and> fst (is_mountpoint_active denied_world example_mount_point) = Raise (OSError 13)
   \<and> stat dangling_world (mount_point_of dangling_world long_name) = Inl ENAMETOOLONG
   \<and> \<not> is_stale_mount dangling_world (mount_point_of dangling_world long_name)
   \<and> fst (is_mountpoint_active dangling_world (mount_point_of dangling_world long_name))
       = Raise (OSError ENAMETOOLONG)"
  by code_simp

text \<open>
  Claim C8. A path whose \<^verbatim>\<open>stat\<close> raises \<^verbatim>\<open>errno\<close> 107 is stale, and \<^verbatim>\<open>_is_mountpoint_active\<close>
  answers \<open>False\<close> for it without running any command: the world it returns is the world
  it was given. So \<^verbatim>\<open>is_mounted\<close> is \<open>False\<close> for a bucket whose mount point is stale.
\<close>

theorem stale_never_active:
  assumes "stat w p = Inl 107"
  shows "is_stale_mount w p \<and> is_mountpoint_active w p = (Return False, w)
         \<and> (mount_point_of w bucket_name = p \<longrightarrow> is_mounted w bucket_name = (Return False, w))"
  using assms by (simp add: is_stale_mount_def is_mountpoint_active_def is_mounted_def)

theorem stale_never_active_witness:
  "stat stale_world example_mount_point = Inl 107
   \<and> mount_point_of stale_world ''s3://data-team/'' = example_mount_point
   \<and> is_mountpoint_active stale_world example_mount_point = (Return False, stale_world)
   \<and> is_mounted stale_world ''s3://data-team/'' = (Return False, stale_world)"
proof -
  have h: "stat stale_world example_mount_point = Inl 107" by code_simp
  have m: "mount_point_of stale_world ''s3://data-team/'' = example_mount_point" by code_simp
  from stale_never_active [OF h, of "''s3://data-team/''"] h m show ?thesis by blast
qed

text \<open>
  Claim C10. Whenever \<^verbatim>\<open>get_mount_status\<close> returns, its field \<^verbatim>\<open>is_mounted\<close> is the answer of
  \<^verbatim>\<open>is_mounted\<close> for the same name in the same world; and when \<^verbatim>\<open>is_mounted\<close> raises, so does
  \<^verbatim>\<open>get_mount_status\<close>. (The status can also fail on its own, in \<^verbatim>\<open>Path.cwd()\<close> or in the
  \<^verbatim>\<open>is_symlink()\<close> of the default link; then there is no field to compare.)
\<close>

theorem status_agrees_with_is_mounted:
  "(\<forall>st. fst (get_mount_status w bucket_name) = Return st
         \<longrightarrow> fst (is_mounted w bucket_name) = Return (is_mounted_field st))
   \<and> (\<forall>e. fst (is_mounted w bucket_name) = Raise e
         \<longrightarrow> (\<exists>e'. fst (get_mount_status w bucket_name) = Raise e'))"
proof -
  let ?mp = "joinpath (get_mount_base w) (normalize_bucket_name bucket_name)"
  obtain r w1 where a: "is_mountpoint_active w ?mp = (r, w1)"
    by (cases "is_mountpoint_active w ?mp")
  show ?thesis
  proof (cases "get_default_root w")
    case (Raise x)
    then show ?thesis by (simp add: get_mount_status_def Let_def)
  next
    case (Return root)
    show ?thesis
    proof (cases r)
      case (Raise x)
      with a Return show ?thesis
        by (simp add: get_mount_status_def is_mounted_def mount_point_of_def Let_def)
    next
      case r: (Return act)
      show ?thesis
        using a Return r
        by (cases "is_symlink w1 (joinpath root (normalize_bucket_name bucket_name))")
           (simp_all add: get_mount_status_def is_mounted_def mount_point_of_def Let_def)
    qed
  qed
qed

theorem status_agrees_with_is_mounted_witness:
  "(\<exists>st. fst (get_mount_status mounted_world ''s3://data-team'') = Return st
         \<and> is_mounted_field st \<and> fst (is_mounted mounted_world ''s3://data-team'') = Return True)
   \<and> fst (is_mounted denied_world ''data-team'') = Raise (OSError 13)
   \<and> (\<exists>e'. fst (get_mount_status denied_world ''data-team'') = Raise e')"
proof -
  obtain st where st: "fst (get_mount_status mounted_world ''s3://data-team'') = Return st"
    and f: "is_mounted_field st"
  proof
    show "fst (get_mount_status mounted_world ''s3://data-team'')
            = Return \<lparr>bucket = ''data-team'', mount_point = example_mount_point,
                      is_mounted_field = True, default_symlink = example_link,
                      symlink_exists = True\<rparr>" by code_simp
    show "is_mounted_field \<lparr>bucket = ''data-team'', mount_point = example_mount_point,
                      is_mounted_field = True, default_symlink = example_link,
                      symlink_exists = True\<rparr>" by simp
  qed
  have d: "fst (is_mounted denied_world ''data-team'') = Raise (OSError 13)" by code_simp
  from status_agrees_with_is_mounted [of mounted_world "''s3://data-team''"] st f
  have a: "fst (is_mounted mounted_world ''s3://data-team'') = Return True" by simp
  from status_agrees_with_is_mounted [of denied_world "''data-team''"] d
  have b: "\<exists>e'. fst (get_mount_status denied_world ''data-team'') = Raise e'" by blast
  from st f a b d show ?thesis by blast
qed

subsection \<open>Unmounting what is not mounted\<close>

text \<open>
  Claim C9. When the inspector does not answer \<open>True\<close> for the mount point of a bucket
  (it answers \<open>False\<close>, or it raises), \<^verbatim>\<open>unmount_bucket\<close> changes nothing: the world it leaves
  differs from the one it found by the log alone, and the commands it has added (the probe
  of the inspector) are not unmount commands. No symlink is removed, whatever
  \<^verbatim>\<open>remove_symlinks\<close> says.
\<close>

theorem unmount_noop_frame:
  assumes "fst (is_mountpoint_active w (mount_point_of w bucket_name)) \<noteq> Return True"
  shows "\<exists>l. snd (unmount_bucket w bucket_name remove_symlinks) = w\<lparr>log := log w @ l\<rparr>
             \<and> (\<forall>c \<in> set l. \<not> is_unmount_cmd c)"
proof -
  let ?mp = "mount_point_of w bucket_name"
  obtain r w1 where a: "is_mountpoint_active w ?mp = (r, w1)"
    by (cases "is_mountpoint_active w ?mp")
  with assms have "r \<noteq> Return True" by simp
  then have eq: "snd (unmount_bucket w bucket_name remove_symlinks) = snd (is_mountpoint_active w ?mp)"
    using a by (cases r) (auto simp: unmount_bucket_def Let_def)
  from active_world [of w ?mp] show ?thesis
  proof (elim disjE)
    assume "snd (is_mountpoint_active w ?mp) = w"
    with eq have "snd (unmount_bucket w bucket_name remove_symlinks) = w\<lparr>log := log w @ []\<rparr>" by simp
    then show ?thesis by (intro exI [of _ "[]"]) simp
  next
    assume "snd (is_mountpoint_active w ?mp) = w\<lparr>log := log w @ [Mountpoint ?mp]\<rparr>"
    with eq show ?thesis by (intro exI [of _ "[Mountpoint ?mp]"]) (simp add: is_unmount_cmd_def)
  next
    assume "snd (is_mountpoint_active w ?mp) = w\<lparr>log := log w @ [MountList]\<rparr>"
    with eq show ?thesis by (intro exI [of _ "[MountList]"]) (simp add: is_unmount_cmd_def)
  qed
qed

theorem unmount_noop_frame_witness:
  "fst (is_mountpoint_active dangling_world (mount_point_of dangling_world ''data-team''))
     \<noteq> Return True
   \<and> is_symlink dangling_world example_link = Return True
   \<and> get_default_root dangling_world = Return (butlast example_link)
   \<and> (\<exists>l. snd (unmount_bucket dangling_world ''data-team'' True)
             = dangling_world\<lparr>log := log dangling_world @ l\<rparr>
           \<and> (\<forall>c \<in> set l. \<not> is_unmount_cmd c))"
proof -
  have h: "fst (is_mountpoint_active dangling_world (mount_point_of dangling_world ''data-team''))
             \<noteq> Return True"
    by code_simp
  have s: "is_symlink dangling_world example_link = Return True" by code_simp
  have r: "get_default_root dangling_world = Return (butlast example_link)" by code_simp
  from unmount_noop_frame [OF h] h s r show ?thesis by blast
qed

text \<open>When the inspector answers \<open>False\<close>, \<^verbatim>\<open>unmount_bucket\<close> returns normally.\<close>

lemma unmount_not_mounted_ok:
  assumes "fst (is_mountpoint_active w (mount_point_of w bucket_name)) = Return False"
  shows "fst (unmount_bucket w bucket_name remove_symlinks) = Return ()"
  using assms
  by (cases "is_mountpoint_active w (mount_point_of w bucket_name)")
     (simp add: unmount_bucket_def Let_def)

text \<open>
  Claim C5 asks that unmounting a bucket that is not mounted be a success in every case.
  Where the inspector raises (see claim C2), \<^verbatim>\<open>unmount_bucket\<close> raises with it: with a mount
  base that may not be searched, and with a bucket name of 256 characters, the bucket is
  not mounted and the call ends in \<^verbatim>\<open>OSError\<close>.
\<close>

theorem unmount_raises_on_unreadable_mount_base:
  "stat denied_world (mount_point_of denied_world ''data-team'') = Inl 13
   \<and> fst (is_mounted denied_world ''data-team'') \<noteq> Return True
   \<and> fst (unmount_bucket denied_world ''data-team'' True) = Raise (OSError 13)
   \<and> stat dangling_world (mount_point_of dangling_world long_name) = Inl ENAMETOOLONG
   \<and> fst (is_mounted dangling_world long_name) \<noteq> Return True
   \<and> fst (unmount_bucket dangling_world long_name True) = Raise (OSError ENAMETOOLONG)"
  by code_simp

subsection \<open>Unlinking\<close>

lemma node_at_delete:
  "q \<noteq> [] \<Longrightarrow> node_at (AList.delete q ns) q' = (if q' = q then None else node_at ns q')"
  by (auto simp: node_at_def delete_conv')

lemma node_at_delete_other: "node_at ns q' = Some n \<Longrightarrow> node_at ns q \<noteq> Some n \<Longrightarrow>
   node_at (AList.delete q ns) q' = Some n"
  by (cases "q = []") (auto simp: node_at_def delete_conv')

lemma os_unlink_cases:
  "os_unlink w p = (r, w') \<Longrightarrow>
     w' = w \<or> (\<exists>q t. lstat w p = Inr q \<and> node_at (nodes w) q \<noteq> Some Dir
                  \<and> w' = w\<lparr>nodes := AList.delete q (nodes w)\<rparr>)"
  by (auto simp: os_unlink_def split: sum.splits option.splits if_splits)

lemma unlink_bucket_world:
  "snd (unlink_bucket w n root_dir) = w
   \<or> (\<exists>q t. node_at (nodes w) q = Some (Symlink t)
          \<and> snd (unlink_bucket w n root_dir) = w\<lparr>nodes := AList.delete q (nodes w)\<rparr>)"
proof (cases "root_of w root_dir")
  case (Raise x)
  then show ?thesis by (simp add: unlink_bucket_def)
next
  case (Return root)
  let ?sp = "joinpath root (normalize_bucket_name n)"
  show ?thesis
  proof (cases "is_symlink w ?sp = Return True")
    case False
    then show ?thesis using Return
      by (cases "is_symlink w ?sp") (auto simp: unlink_bucket_def Let_def)
  next
    case True
    then obtain q t where q: "lstat w ?sp = Inr q" "node_at (nodes w) q = Some (Symlink t)"
      by (auto simp: is_symlink_def split: sum.splits option.splits node.splits if_splits)
    obtain r w' where u: "os_unlink w ?sp = (r, w')" by (cases "os_unlink w ?sp")
    from os_unlink_cases [OF u] q
    have "w' = w \<or> w' = w\<lparr>nodes := AList.delete q (nodes w)\<rparr>" by auto
    moreover have "snd (unlink_bucket w n root_dir) = w'"
      using Return True u by (cases r) (auto simp: unlink_bucket_def Let_def raise_errno_def)
    ultimately show ?thesis using q by auto
  qed
qed

text \<open>
  Claim C3, as amended. Let \<open>root\<close> be the directory of the call. When nothing is at
  \<^verbatim>\<open>root/bucket_id\<close>, and when what is there is a file or a directory, \<^verbatim>\<open>unlink_bucket\<close> returns
  \<open>False\<close> without an error and changes nothing. When a symlink is there and its
  directory may be written, exactly that entry is removed and the result is \<open>True\<close>. In
  every case, errors included, all files and directories stay, and the mount table, the
  pending mounts and the command log are as before: nothing is unmounted.
\<close>

theorem unlink_bucket_behaviour:
  assumes "root_of w root_dir = Return root"
  shows "(lstat w (joinpath root (normalize_bucket_name n)) = Inl ENOENT
            \<longrightarrow> unlink_bucket w n root_dir = (Return False, w))
     \<and> (\<forall>q. lstat w (joinpath root (normalize_bucket_name n)) = Inr q
              \<and> (node_at (nodes w) q = Some File \<or> node_at (nodes w) q = Some Dir)
            \<longrightarrow> unlink_bucket w n root_dir = (Return False, w))
     \<and> (\<forall>q t. lstat w (joinpath root (normalize_bucket_name n)) = Inr q
              \<and> node_at (nodes w) q = Some (Symlink t) \<and> write_faults w (butlast q) = None
            \<longrightarrow> unlink_bucket w n root_dir
                  = (Return True, w\<lparr>nodes := AList.delete q (nodes w)\<rparr>))
     \<and> keeps_files w (snd (unlink_bucket w n root_dir))
     \<and> mtab (snd (unlink_bucket w n root_dir)) = mtab w
     \<and> pending (snd (unlink_bucket w n root_dir)) = pending w
     \<and> log (snd (unlink_bucket w n root_dir)) = log w"
proof -
  let ?sp = "joinpath root (normalize_bucket_name n)"
  have a: "lstat w ?sp = Inl ENOENT \<longrightarrow> unlink_bucket w n root_dir = (Return False, w)"
    using assms by (simp add: unlink_bucket_def Let_def is_symlink_def ignore_error_def)
  have b: "\<forall>q. lstat w ?sp = Inr q
              \<and> (node_at (nodes w) q = Some File \<or> node_at (nodes w) q = Some Dir)
            \<longrightarrow> unlink_bucket w n root_dir = (Return False, w)"
    using assms by (auto simp: unlink_bucket_def Let_def is_symlink_def)
  have c: "\<forall>q t. lstat w ?sp = Inr q
              \<and> node_at (nodes w) q = Some (Symlink t) \<and> write_faults w (butlast q) = None
            \<longrightarrow> unlink_bucket w n root_dir
                  = (Return True, w\<lparr>nodes := AList.delete q (nodes w)\<rparr>)"
    using assms
    by (auto simp: unlink_bucket_def Let_def is_symlink_def os_unlink_def raise_errno_def)
  have d: "keeps_files w (snd (unlink_bucket w n root_dir))
     \<and> mtab (snd (unlink_bucket w n root_dir)) = mtab w
     \<and> pending (snd (unlink_bucket w n root_dir)) = pending w
     \<and> log (snd (unlink_bucket w n root_dir)) = log w"
    using unlink_bucket_world [of w n root_dir]
    by (auto simp: keeps_files_def node_at_delete_other)
  from a b c d show ?thesis by blast
qed

theorem unlink_bucket_behaviour_witness:
  "root_of mounted_world None = Return (butlast example_link)
   \<and> joinpath (butlast example_link) (normalize_bucket_name ''data-team'') = example_link
   \<and> lstat fresh_world example_link = Inl ENOENT
   \<and> unlink_bucket fresh_world ''data-team'' None = (Return False, fresh_world)
   \<and> lstat occupied_world example_link = Inr example_link
   \<and> node_at (nodes occupied_world) example_link = Some File
   \<and> unlink_bucket occupied_world ''data-team'' None = (Return False, occupied_world)
   \<and> lstat mounted_world example_link = Inr example_link
   \<and> node_at (nodes mounted_world) example_link = Some (Symlink example_mount_point)
   \<and> write_faults mounted_world (butlast example_link) = None
   \<and> unlink_bucket mounted_world ''data-team'' None
       = (Return True, mounted_world\<lparr>nodes := AList.delete example_link (nodes mounted_world)\<rparr>)
   \<and> mtab (snd (unlink_bucket mounted_world ''data-team'' None)) = [example_mount_point]"
proof -
  have r1: "root_of fresh_world None = Return (butlast example_link)" by code_simp
  have r2: "root_of occupied_world None = Return (butlast example_link)" by code_simp
  have r3: "root_of mounted_world None = Return (butlast example_link)" by code_simp
  have j: "joinpath (butlast example_link) (normalize_bucket_name ''data-team'') = example_link"
    by code_simp
  have a: "lstat fresh_world example_link = Inl ENOENT" by code_simp
  have b: "lstat occupied_world example_link = Inr example_link
           \<and> node_at (nodes occupied_world) example_link = Some File" by code_simp
  have c: "lstat mounted_world example_link = Inr example_link
           \<and> node_at (nodes mounted_world) example_link = Some (Symlink example_mount_point)
           \<and> write_faults mounted_world (butlast example_link) = None" by code_simp
  have m: "mtab mounted_world = [example_mount_point]" by code_simp
  from unlink_bucket_behaviour [OF r1, of "''data-team''"] a j
  have A: "unlink_bucket fresh_world ''data-team'' None = (Return False, fresh_world)" by simp
  from unlink_bucket_behaviour [OF r2, of "''data-team''"] b j
  have B: "unlink_bucket occupied_world ''data-team'' None = (Return False, occupied_world)"
    by simp
  from unlink_bucket_behaviour [OF r3, of "''data-team''"] c j
  have C: "unlink_bucket mounted_world ''data-team'' None
       = (Return True, mounted_world\<lparr>nodes := AList.delete example_link (nodes mounted_world)\<rparr>)"
    by simp
  from A B C r3 j a b c m show ?thesis by simp
qed

text \<open>
  The claim as first stated fails: with a regular file at the path, \<^verbatim>\<open>unlink_bucket\<close> does not
  raise. It returns \<open>False\<close> and leaves the file.
\<close>

theorem unlink_non_symlink_no_error:
  "path_exists occupied_world example_link = Return True
   \<and> is_symlink occupied_world example_link = Return False
   \<and> fst (unlink_bucket occupied_world ''data-team'' None) = Return False
   \<and> nodes (snd (unlink_bucket occupied_world ''data-team'' None)) = nodes occupied_world"
  by code_simp

text \<open>An \<^verbatim>\<open>OSError\<close> of \<^verbatim>\<open>unlink\<close> itself is passed on, and the link stays.\<close>

lemma unlink_failures:
  "fst (unlink_bucket readonly_world ''data-team'' None) = Raise (OSError 13)
   \<and> nodes (snd (unlink_bucket readonly_world ''data-team'' None)) = nodes readonly_world"
  by code_simp

end
